theory Spec2Isabelle
  imports Complex_Main
begin

section \<open>Data model of the trainer\<close>

text \<open>
  The exceptions that leave \<open>Trainer.train_model\<close>. Every \<open>raise\<close> of trainer.py
  raises Python's \<open>ValueError\<close>; the argument tells the raise sites apart (the
  specification gives each site a name of its own, kept here). \<open>StopIteration\<close>,
  \<open>KeyError\<close> and \<open>ZeroDivisionError\<close> are raised by the built-in operations the
  trainer applies; \<open>TorchError\<close> is whatever the torch library raises.
\<close>

datatype value_error =
    InvalidSplitError                  \<comment> \<open>line 147\<close>
  | NoTrainingDataError                \<comment> \<open>line 150\<close>
  | UnrecognizedWriterError            \<comment> \<open>line 164\<close>
  | UnrecognizedOptimizerError         \<comment> \<open>line 230\<close>
  | UnrecognizedSchedulerError         \<comment> \<open>line 267\<close>
  | InvalidWarmupError                 \<comment> \<open>line 279\<close>
  | InvalidWarmupUnitError             \<comment> \<open>line 286\<close>
  | UnrecognizedBatchSchedulerError    \<comment> \<open>line 325\<close>

datatype error =
    ValueError value_error
  | StopIteration
  | KeyError string
  | ZeroDivisionError
  | TorchError

text \<open>
  A \<open>DictDataLoader\<close>, as far as the trainer reads it: \<open>dataset.name\<close>,
  \<open>dataset.split\<close> and \<open>len(dataloader)\<close>, the number of its batches.
\<close>

record dataset =
  name :: string
  split :: string

record dataloader =
  dataset :: dataset
  len :: nat

text \<open>
  A batch is the pair \<open>(X_dict, Y_dict)\<close>. The trainer looks only at \<open>Y_dict\<close>, a
  dictionary from task name to label tensor (a list of labels here); \<open>X_dict\<close> is
  handed to the model unread.
\<close>

type_synonym Y_dict = "(string \<times> int list) list"
type_synonym 'x batch = "'x \<times> Y_dict"

text \<open>
  A metrics dictionary: metric name to float, in insertion order. Python's floats are
  read as real numbers throughout; rounding is not modelled.
\<close>

type_synonym Metrics = "(string \<times> real) list"

subsection \<open>The configuration\<close>

text \<open>
  \<open>self.config\<close>, the defaults merged with the caller's options: the keys the
  trainer reads. A key that shares its name with an attribute of the trainer carries the
  prefix \<open>cfg_\<close>. Numbers of the configuration are Python ints or floats, both read
  as reals; an option that may be \<open>None\<close> is an \<open>option\<close>.
\<close>

record log_writer_config =
  writer :: string

record checkpointer_config =
  checkpoint_dir :: "string option"

record optimizer_config =
  cfg_optimizer :: string
  cfg_lr :: real
  l2 :: real
  grad_clip :: "real option"

record lr_scheduler_config =
  cfg_lr_scheduler :: string
  cfg_warmup_steps :: "real option"
  warmup_unit :: string
  warmup_percentage :: "real option"
  min_lr :: "real option"

record config =
  train_split :: string
  valid_split :: string
  test_split :: string
  n_epochs :: int
  cfg_logging :: bool
  log_writer_config :: log_writer_config
  checkpointing :: bool
  checkpointer_config :: checkpointer_config
  optimizer_config :: optimizer_config
  lr_scheduler_config :: lr_scheduler_config
  cfg_batch_scheduler :: string

text \<open>Python's truth value of an optional number: \<open>None\<close> and zero are false.\<close>

fun truthy :: "real option \<Rightarrow> bool" where
  "truthy None = False"
| "truthy (Some x) = (x \<noteq> 0)"

text \<open>Python's \<open>int(x)\<close> on a number: truncation towards zero.\<close>

definition py_int :: "real \<Rightarrow> int" where
  "py_int x = (if 0 \<le> x then \<lfloor>x\<rfloor> else \<lceil>x\<rceil>)"

text \<open>
  Python's \<open>a in b\<close> on two strings: \<open>a\<close> occurs in \<open>b\<close> as a contiguous
  substring.
\<close>

fun str_prefix :: "string \<Rightarrow> string \<Rightarrow> bool" where
  "str_prefix [] ys = True"
| "str_prefix (x # xs) [] = False"
| "str_prefix (x # xs) (y # ys) = (x = y \<and> str_prefix xs ys)"

fun str_in :: "string \<Rightarrow> string \<Rightarrow> bool" where
  "str_in xs [] = (xs = [])"
| "str_in xs (y # ys) = (str_prefix xs (y # ys) \<or> str_in xs ys)"

subsection \<open>Dictionaries\<close>

text \<open>
  A Python dict keeps its keys in insertion order: an association list. \<open>dict_set\<close>
  is \<open>d[k] = v\<close>; \<open>dict_update\<close> is \<open>d.update(e)\<close>; \<open>dd_get\<close> is the read
  \<open>d[k]\<close> of a \<open>defaultdict\<close>, which stores the default under a missing key.
\<close>

fun dict_set :: "('k \<times> 'v) list \<Rightarrow> 'k \<Rightarrow> 'v \<Rightarrow> ('k \<times> 'v) list" where
  "dict_set [] k v = [(k, v)]"
| "dict_set ((k', v') # d) k v = (if k' = k then (k, v) # d else (k', v') # dict_set d k v)"

fun dict_update :: "('k \<times> 'v) list \<Rightarrow> ('k \<times> 'v) list \<Rightarrow> ('k \<times> 'v) list" where
  "dict_update d [] = d"
| "dict_update d ((k, v) # e) = dict_update (dict_set d k v) e"

definition dd_get :: "'v \<Rightarrow> ('k \<times> 'v) list \<Rightarrow> 'k \<Rightarrow> 'v \<times> ('k \<times> 'v) list" where
  "dd_get dflt d k = (case map_of d k of Some v \<Rightarrow> (v, d) | None \<Rightarrow> (dflt, d @ [(k, dflt)]))"

section \<open>Collaborators\<close>

text \<open>
  The model, the log manager, the log writer, the checkpointer, the batch scheduler and
  the torch library are not part of trainer.py. Every call the trainer makes to one of
  them is recorded, in order, as an event of the trainer's trace; what a collaborator
  answers is a function of the trace so far and of the arguments of the call, so that
  nothing is assumed about the collaborators beyond being deterministic. The optimizer's
  learning rate \<open>optimizer.param_groups[0]["lr"]\<close>, which the trainer reads and
  writes itself, and the two scheduler objects are kept in the trainer's state.
\<close>

datatype event =
    LogWriter_init
  | TensorBoardWriter_init
  | Checkpointer_init "string option"
  | LogManager_init nat
  | Optimizer_init string real real
  | Batch_scheduler_init string
  | Model_train
  | Model_eval
  | Get_batches "dataloader list"
  | Zero_grad
  | Calculate_loss
  | Backward real
  | Clip_grad_norm real
  | Optimizer_step real
  | LogManager_update nat
  | Trigger_evaluation
  | Trigger_checkpointing
  | Score "dataloader list"
  | Add_scalar string real real
  | Checkpoint real Metrics
  | LogManager_close

datatype log_writer = LogWriter | TensorBoardWriter

datatype checkpointer = Checkpointer checkpointer_config

datatype log_manager = LogManager nat "log_writer option" "checkpointer option"

text \<open>
  The optimizer built by \<open>_set_optimizer\<close> has one parameter group; \<open>lr\<close> is its
  live learning rate.
\<close>

record optimizer =
  opt_class :: string
  lr :: real
  weight_decay :: real

text \<open>
  The attributes of a \<open>Trainer\<close> object, and the trace of its calls to the
  collaborators. \<open>train_model\<close> assigns every attribute before it reads it, so the
  values a trainer holds when \<open>train_model\<close> starts are arbitrary.
\<close>

record 's trainer =
  config :: config
  n_batches_per_epoch :: nat
  log_writer :: "log_writer option"
  checkpointer :: "checkpointer option"
  log_manager :: log_manager
  optimizer :: optimizer
  warmup_steps :: int
  warmup_scheduler :: "'s option"
  lr_scheduler :: "'s option"
  batch_scheduler :: string
  metrics :: Metrics
  running_losses :: "(string \<times> real) list"
  running_counts :: "(string \<times> int) list"
  trace :: "event list"

text \<open>
  The collaborators. \<open>LambdaLR\<close>, \<open>ExponentialLR\<close> and \<open>StepLR\<close> construct a
  torch scheduler on the optimizer and \<open>scheduler_step\<close> is its \<open>step()\<close>: each is
  given the optimizer's learning rate and returns the scheduler and the rate it leaves
  at the optimizer, or raises (a \<open>LambdaLR\<close> calls the function it was given).
  The keyword arguments taken from \<open>exponential_config\<close> and \<open>step_config\<close>
  are part of the collaborator. \<open>batch_schedulers\<close> holds the names registered in the
  dictionary of that name; \<open>get_batches\<close> is given the name of the scheduler in use.
\<close>

record ('x, 'm, 's) env =
  log_dir :: "event list \<Rightarrow> string"
  batch_schedulers :: "string list"
  get_batches :: "event list \<Rightarrow> string \<Rightarrow> dataloader list \<Rightarrow> ('x batch \<times> dataloader) list"
  calculate_loss :: "event list \<Rightarrow> 'm \<Rightarrow> 'x \<Rightarrow> Y_dict \<Rightarrow> (string \<times> real) list \<times> (string \<times> int) list"
  score :: "event list \<Rightarrow> 'm \<Rightarrow> dataloader list \<Rightarrow> Metrics"
  trigger_evaluation :: "event list \<Rightarrow> bool"
  trigger_checkpointing :: "event list \<Rightarrow> bool"
  point_total :: "event list \<Rightarrow> real"
  unit_total :: "event list \<Rightarrow> real"
  close :: "event list \<Rightarrow> 'm \<Rightarrow> 'm"
  LambdaLR :: "event list \<Rightarrow> (int \<Rightarrow> error + real) \<Rightarrow> real \<Rightarrow> error + ('s \<times> real)"
  ExponentialLR :: "event list \<Rightarrow> real \<Rightarrow> error + ('s \<times> real)"
  StepLR :: "event list \<Rightarrow> real \<Rightarrow> error + ('s \<times> real)"
  scheduler_step :: "event list \<Rightarrow> 's \<Rightarrow> real \<Rightarrow> error + ('s \<times> real)"

text \<open>
  A method of the trainer returns the exception it raised, if any, and the trainer as
  the method left it. \<open>seq\<close> runs the next statement unless the previous one raised.
\<close>

definition seq :: "error option \<times> 'a \<Rightarrow> ('a \<Rightarrow> error option \<times> 'a) \<Rightarrow> error option \<times> 'a" where
  "seq r f = (case r of (Some e, s) \<Rightarrow> (Some e, s) | (None, s) \<Rightarrow> f s)"

definition emit :: "event \<Rightarrow> 's trainer \<Rightarrow> 's trainer" where
  "emit ev self = self\<lparr>trace := trace self @ [ev]\<rparr>"

section \<open>The methods of the trainer\<close>

subsection \<open>\<open>_check_dataloaders\<close>\<close>

definition check_dataloaders :: "'s trainer \<Rightarrow> dataloader list \<Rightarrow> error option" where
  "check_dataloaders self dataloaders =
     (let all_splits = [train_split (config self), valid_split (config self),
                        test_split (config self)]
      in if \<not> list_all (\<lambda>d. split (dataset d) \<in> set all_splits) dataloaders
         then Some (ValueError InvalidSplitError)
         else if \<not> list_ex (\<lambda>d. split (dataset d) = train_split (config self)) dataloaders
         then Some (ValueError NoTrainingDataError)
         else None)"

subsection \<open>The training helpers\<close>

definition set_log_writer :: "'s trainer \<Rightarrow> error option \<times> 's trainer" where
  "set_log_writer self =
     (if cfg_logging (config self)
      then (let cfg = log_writer_config (config self)
            in if writer cfg = ''json''
               then (None, (emit LogWriter_init self)\<lparr>log_writer := Some LogWriter\<rparr>)
               else if writer cfg = ''tensorboard''
               then (None, (emit TensorBoardWriter_init self)\<lparr>log_writer := Some TensorBoardWriter\<rparr>)
               else (Some (ValueError UnrecognizedWriterError), self))
      else (None, self\<lparr>log_writer := None\<rparr>))"

definition set_checkpointer :: "('x, 'm, 's) env \<Rightarrow> 's trainer \<Rightarrow> error option \<times> 's trainer" where
  "set_checkpointer E self =
     (if checkpointing (config self)
      then (let cc = checkpointer_config (config self);
                cc = (if checkpoint_dir cc = None \<and> log_writer self \<noteq> None
                      then cc\<lparr>checkpoint_dir := Some (log_dir E (trace self))\<rparr> else cc);
                self = self\<lparr>config := (config self)\<lparr>checkpointer_config := cc\<rparr>\<rparr>
            in (None, (emit (Checkpointer_init (checkpoint_dir cc)) self)
                        \<lparr>checkpointer := Some (Checkpointer cc)\<rparr>))
      else (None, self\<lparr>checkpointer := None\<rparr>))"

definition set_log_manager :: "'s trainer \<Rightarrow> error option \<times> 's trainer" where
  "set_log_manager self =
     (None, (emit (LogManager_init (n_batches_per_epoch self)) self)
        \<lparr>log_manager := LogManager (n_batches_per_epoch self) (log_writer self) (checkpointer self)\<rparr>)"

text \<open>
  \<open>_set_optimizer\<close>. The parameters of the model, on which torch builds the
  optimizer, stay with the collaborators: the model is no argument here. The learning
  rate of the one parameter group starts at the configured \<open>lr\<close>.
\<close>

definition set_optimizer :: "'s trainer \<Rightarrow> error option \<times> 's trainer" where
  "set_optimizer self =
     (let oc = optimizer_config (config self);
          opt = cfg_optimizer oc;
          built = (\<lambda>cls. (None, (emit (Optimizer_init cls (cfg_lr oc) (l2 oc)) self)
                     \<lparr>optimizer := \<lparr>opt_class = cls, lr = cfg_lr oc, weight_decay = l2 oc\<rparr>\<rparr>))
      in if opt = ''sgd'' then built ''SGD''
         else if opt = ''adam'' then built ''Adam''
         else if opt = ''adamax'' then built ''Adamax''
         else (Some (ValueError UnrecognizedOptimizerError), self))"

subsection \<open>The learning-rate schedule\<close>

text \<open>
  The two closures of the source, given to \<open>LambdaLR\<close>:
  \<open>lambda x: x / self.warmup_steps\<close> and
  \<open>lambda x: (total_steps - self.warmup_steps - x) / (total_steps - self.warmup_steps)\<close>.
  Python's \<open>/\<close> raises \<open>ZeroDivisionError\<close> on a zero divisor.
\<close>

definition linear_warmup_func :: "int \<Rightarrow> int \<Rightarrow> error + real" where
  "linear_warmup_func ws x =
     (if ws = 0 then Inl ZeroDivisionError else Inr (real_of_int x / real_of_int ws))"

definition linear_decay_func :: "int \<Rightarrow> int \<Rightarrow> int \<Rightarrow> error + real" where
  "linear_decay_func total_steps ws x =
     (if total_steps - ws = 0 then Inl ZeroDivisionError
      else Inr (real_of_int (total_steps - ws - x) / real_of_int (total_steps - ws)))"

text \<open>
  \<open>optim.lr_scheduler.LambdaLR(self.optimizer, linear_warmup_func)\<close> and the
  assignment of line 308, which an exception of the constructor skips.
\<close>

definition build_warmup_scheduler :: "('x, 'm, 's) env \<Rightarrow> 's trainer \<Rightarrow> error option \<times> 's trainer" where
  "build_warmup_scheduler E self =
     (case LambdaLR E (trace self) (linear_warmup_func (warmup_steps self)) (lr (optimizer self)) of
        Inl e \<Rightarrow> (Some e, self)
      | Inr (s, r) \<Rightarrow> (None, self\<lparr>optimizer := (optimizer self)\<lparr>lr := r\<rparr>,
                                  warmup_scheduler := Some s\<rparr>))"

text \<open>
  \<open>_set_warmup_scheduler\<close>. The products under \<open>int(...)\<close> are products of
  reals here and of floats in Python; where rounding moves a float product across an
  integer, Python's count differs from this one by one.
\<close>

definition set_warmup_scheduler :: "('x, 'm, 's) env \<Rightarrow> 's trainer \<Rightarrow> error option \<times> 's trainer" where
  "set_warmup_scheduler E self =
     (let lsc = lr_scheduler_config (config self)
      in if truthy (cfg_warmup_steps lsc)
         then (let ws = the (cfg_warmup_steps lsc)
               in if ws < 0 then (Some (ValueError InvalidWarmupError), self)
                  else if warmup_unit lsc = ''epochs''
                  then build_warmup_scheduler E
                         (self\<lparr>warmup_steps := py_int (ws * real (n_batches_per_epoch self))\<rparr>)
                  else if warmup_unit lsc = ''batches''
                  then build_warmup_scheduler E (self\<lparr>warmup_steps := py_int ws\<rparr>)
                  else (Some (ValueError InvalidWarmupUnitError), self))
         else if truthy (warmup_percentage lsc)
         then build_warmup_scheduler E
                (self\<lparr>warmup_steps :=
                   py_int (the (warmup_percentage lsc) * real_of_int (n_epochs (config self))
                           * real (n_batches_per_epoch self))\<rparr>)
         else (None, self\<lparr>warmup_steps := 0, warmup_scheduler := None\<rparr>))"

definition built_lr_scheduler :: "'s trainer \<Rightarrow> error + ('s \<times> real) \<Rightarrow> error option \<times> 's trainer" where
  "built_lr_scheduler self r =
     (case r of
        Inl e \<Rightarrow> (Some e, self)
      | Inr (s, r) \<Rightarrow> (None, self\<lparr>optimizer := (optimizer self)\<lparr>lr := r\<rparr>,
                                  lr_scheduler := Some s\<rparr>))"

definition set_lr_scheduler :: "('x, 'm, 's) env \<Rightarrow> 's trainer \<Rightarrow> error option \<times> 's trainer" where
  "set_lr_scheduler E self0 =
     seq (set_warmup_scheduler E self0) (\<lambda>self.
       let opt = cfg_lr_scheduler (lr_scheduler_config (config self))
       in if opt = ''constant'' then (None, self\<lparr>lr_scheduler := None\<rparr>)
          else if opt = ''linear''
          then (let total_steps = int (n_batches_per_epoch self) * n_epochs (config self)
                in built_lr_scheduler self
                     (LambdaLR E (trace self) (linear_decay_func total_steps (warmup_steps self))
                        (lr (optimizer self))))
          else if opt = ''exponential''
          then built_lr_scheduler self (ExponentialLR E (trace self) (lr (optimizer self)))
          else if opt = ''step''
          then built_lr_scheduler self (StepLR E (trace self) (lr (optimizer self)))
          else (Some (ValueError UnrecognizedSchedulerError), self))"

definition update_lr_scheduler :: "('x, 'm, 's) env \<Rightarrow> int \<Rightarrow> 's trainer \<Rightarrow> error option \<times> 's trainer" where
  "update_lr_scheduler E step self =
     (if warmup_scheduler self \<noteq> None \<and> step < warmup_steps self
      then (case scheduler_step E (trace self) (the (warmup_scheduler self)) (lr (optimizer self)) of
              Inl e \<Rightarrow> (Some e, self)
            | Inr (s, r) \<Rightarrow> (None, self\<lparr>optimizer := (optimizer self)\<lparr>lr := r\<rparr>,
                                        warmup_scheduler := Some s\<rparr>))
      else if lr_scheduler self \<noteq> None
      then (case scheduler_step E (trace self) (the (lr_scheduler self)) (lr (optimizer self)) of
              Inl e \<Rightarrow> (Some e, self)
            | Inr (s, r) \<Rightarrow>
                (let self = self\<lparr>optimizer := (optimizer self)\<lparr>lr := r\<rparr>, lr_scheduler := Some s\<rparr>;
                     m = min_lr (lr_scheduler_config (config self))
                 in if truthy m \<and> lr (optimizer self) < the m
                    then (None, self\<lparr>optimizer := (optimizer self)\<lparr>lr := the m\<rparr>\<rparr>)
                    else (None, self)))
      else (None, self))"

definition set_batch_scheduler :: "('x, 'm, 's) env \<Rightarrow> 's trainer \<Rightarrow> error option \<times> 's trainer" where
  "set_batch_scheduler E self =
     (if cfg_batch_scheduler (config self) \<notin> set (batch_schedulers E)
      then (Some (ValueError UnrecognizedBatchSchedulerError), self)
      else (None, (emit (Batch_scheduler_init (cfg_batch_scheduler (config self))) self)
                    \<lparr>batch_scheduler := cfg_batch_scheduler (config self)\<rparr>))"

subsection \<open>Evaluation, logging and the running losses\<close>

definition reset_losses :: "'s trainer \<Rightarrow> 's trainer" where
  "reset_losses self = self\<lparr>running_losses := [], running_counts := []\<rparr>"

text \<open>
  \<open>_evaluate\<close>: the loaders are those whose split is \<open>in\<close> the string \<open>split\<close>;
  the result is the model's score of them.
\<close>

definition evaluate_loaders :: "dataloader list \<Rightarrow> string \<Rightarrow> dataloader list" where
  "evaluate_loaders dataloaders splt = filter (\<lambda>d. str_in (split (dataset d)) splt) dataloaders"

definition evaluate :: "('x, 'm, 's) env \<Rightarrow> 'm \<Rightarrow> dataloader list \<Rightarrow> string \<Rightarrow> 's trainer \<Rightarrow> Metrics \<times> 's trainer" where
  "evaluate E model dataloaders splt self =
     (let loaders = evaluate_loaders dataloaders splt
      in (score E (trace self) model loaders, emit (Score loaders) self))"

text \<open>
  The first loop of \<open>_aggregate_losses\<close>, over the keys of \<open>running_losses\<close>; the
  read \<open>self.running_counts[identifier]\<close> is a read of a \<open>defaultdict\<close>.
\<close>

fun task_losses :: "(string \<times> real) list \<Rightarrow> string list \<Rightarrow> (string \<times> int) list \<Rightarrow> Metrics
                      \<Rightarrow> Metrics \<times> (string \<times> int) list" where
  "task_losses rl [] rc metric_dict = (metric_dict, rc)"
| "task_losses rl (identifier # ids) rc metric_dict =
     (let (c, rc) = dd_get 0 rc identifier
      in if c > 0
         then task_losses rl ids rc
                (dict_set metric_dict identifier (fst (dd_get 0 rl identifier) / real_of_int c))
         else task_losses rl ids rc metric_dict)"

definition aggregate_losses :: "'s trainer \<Rightarrow> Metrics \<times> 's trainer" where
  "aggregate_losses self =
     (let (metric_dict, rc) =
            task_losses (running_losses self) (map fst (running_losses self)) (running_counts self) [];
          self = self\<lparr>running_counts := rc\<rparr>;
          total_loss = sum_list (map snd (running_losses self));
          total_count = sum_list (map snd (running_counts self));
          metric_dict = (if total_count > 0
                         then dict_set metric_dict ''model/all/train/loss''
                                (total_loss / real_of_int total_count)
                         else metric_dict);
          metric_dict = dict_set metric_dict ''model/all/train/lr'' (lr (optimizer self))
      in (metric_dict, self))"

definition log_metrics :: "('x, 'm, 's) env \<Rightarrow> Metrics \<Rightarrow> 's trainer \<Rightarrow> 's trainer" where
  "log_metrics E metric_dict self =
     (if log_writer self \<noteq> None
      then fold (\<lambda>(metric_name, metric_value) self.
                   emit (Add_scalar metric_name metric_value (point_total E (trace self))) self)
             metric_dict self
      else self)"

definition checkpoint_model :: "('x, 'm, 's) env \<Rightarrow> Metrics \<Rightarrow> 's trainer \<Rightarrow> 's trainer" where
  "checkpoint_model E metric_dict self =
     (if checkpointer self \<noteq> None
      then emit (Checkpoint (unit_total E (trace self)) metric_dict) self
      else self)"

definition logging :: "('x, 'm, 's) env \<Rightarrow> 'm \<Rightarrow> dataloader list \<Rightarrow> nat \<Rightarrow> 's trainer \<Rightarrow> Metrics \<times> 's trainer" where
  "logging E model dataloaders batch_size self0 =
     (let self = emit Model_eval self0;
          self = emit (LogManager_update batch_size) self;
          (losses, self) = aggregate_losses self;
          metric_dict = dict_update [] losses;
          fire = trigger_evaluation E (trace self);
          self = emit Trigger_evaluation self;
          (metric_dict, self) =
            (if fire
             then (let (scores, self) = evaluate E model dataloaders (valid_split (config self)) self;
                       metric_dict = dict_update metric_dict scores
                   in (metric_dict, reset_losses (log_metrics E metric_dict self)))
             else (metric_dict, self));
          fire = trigger_checkpointing E (trace self);
          self = emit Trigger_checkpointing self;
          self = (if fire then reset_losses (checkpoint_model E metric_dict self) else self)
      in (metric_dict, emit Model_train self))"

subsection \<open>\<open>train_model\<close>\<close>

text \<open>Python's \<open>sep.join(xs)\<close>.\<close>

fun join :: "string \<Rightarrow> string list \<Rightarrow> string" where
  "join sep [] = []"
| "join sep [x] = x"
| "join sep (x # y # ys) = x @ sep @ join sep (y # ys)"

text \<open>
  Lines 98 to 111, the loop over \<open>loss_dict.keys()\<close>. An augmented assignment reads
  its target before it evaluates its right-hand side, and \<open>count_dict[task_name]\<close>
  raises \<open>KeyError\<close> on a task the model gave no count for.
\<close>

fun update_running :: "dataloader \<Rightarrow> (string \<times> real) list \<Rightarrow> (string \<times> int) list \<Rightarrow> string list
                         \<Rightarrow> 's trainer \<Rightarrow> error option \<times> 's trainer" where
  "update_running dl loss_dict count_dict [] self = (None, self)"
| "update_running dl loss_dict count_dict (task_name # tasks) self =
     (let identifier = join ''/'' [task_name, name (dataset dl), split (dataset dl), ''loss''];
          (old_loss, rl) = dd_get 0 (running_losses self) identifier
      in case map_of count_dict task_name of
           None \<Rightarrow> (Some (KeyError task_name), self\<lparr>running_losses := rl\<rparr>)
         | Some c \<Rightarrow>
             (let rl = dict_set rl identifier
                         (old_loss + the (map_of loss_dict task_name) * real_of_int c);
                  (old_count, rc) = dd_get 0 (running_counts self) task_name;
                  rc = dict_set rc task_name (old_count + c)
              in update_running dl loss_dict count_dict tasks
                   (self\<lparr>running_losses := rl, running_counts := rc\<rparr>)))"

text \<open>
  The body of the inner loop, lines 84 to 135, for the batch numbered \<open>batch_num\<close> of
  epoch \<open>epoch_num\<close>. \<open>next(iter(Y_dict.values()))\<close> raises \<open>StopIteration\<close> on an
  empty \<open>Y_dict\<close>. The \<open>continue\<close> of line 115 ends the body. The progress bar,
  which only displays, is left out.
\<close>

definition train_batch :: "('x, 'm, 's) env \<Rightarrow> 'm \<Rightarrow> dataloader list \<Rightarrow> nat \<Rightarrow> nat \<Rightarrow> 'x batch
                             \<Rightarrow> dataloader \<Rightarrow> 's trainer \<Rightarrow> error option \<times> 's trainer" where
  "train_batch E model dataloaders epoch_num batch_num batch dataloader self0 =
     (let (X_dict, Y_dict) = batch;
          total_batch_num = int epoch_num * int (n_batches_per_epoch self0) + int batch_num
      in case Y_dict of
           [] \<Rightarrow> (Some StopIteration, self0)
         | (task, labels) # _ \<Rightarrow>
             (let batch_size = length labels
              in seq (update_lr_scheduler E total_batch_num self0) (\<lambda>self.
                   let self = emit Zero_grad self;
                       (loss_dict, count_dict) = calculate_loss E (trace self) model X_dict Y_dict;
                       self = emit Calculate_loss self
                   in seq (update_running dataloader loss_dict count_dict (map fst loss_dict) self)
                        (\<lambda>self.
                           if loss_dict = [] then (None, self)
                           else (let loss = sum_list (map snd loss_dict);
                                     self = emit (Backward loss) self;
                                     gc = grad_clip (optimizer_config (config self));
                                     self = (if truthy gc then emit (Clip_grad_norm (the gc)) self
                                             else self);
                                     self = emit (Optimizer_step (lr (optimizer self))) self;
                                     (metric_dict, self) = logging E model dataloaders batch_size self
                                 in (None, self\<lparr>metrics := dict_update (metrics self) metric_dict\<rparr>))))))"

fun train_batches :: "('x, 'm, 's) env \<Rightarrow> 'm \<Rightarrow> dataloader list \<Rightarrow> nat
                        \<Rightarrow> (nat \<times> 'x batch \<times> dataloader) list \<Rightarrow> 's trainer \<Rightarrow> error option \<times> 's trainer" where
  "train_batches E model dataloaders epoch_num [] self = (None, self)"
| "train_batches E model dataloaders epoch_num ((batch_num, batch, dataloader) # batches) self =
     (case train_batch E model dataloaders epoch_num batch_num batch dataloader self of
        (Some e, self) \<Rightarrow> (Some e, self)
      | (None, self) \<Rightarrow> train_batches E model dataloaders epoch_num batches self)"

text \<open>
  The outer loop, over \<open>range(n_epochs)\<close>. The batches of an epoch are what the batch
  scheduler yields for the training loaders, numbered from 0.
\<close>

fun train_epochs :: "('x, 'm, 's) env \<Rightarrow> 'm \<Rightarrow> dataloader list \<Rightarrow> dataloader list \<Rightarrow> nat list
                       \<Rightarrow> 's trainer \<Rightarrow> error option \<times> 's trainer" where
  "train_epochs E model dataloaders train_dataloaders [] self = (None, self)"
| "train_epochs E model dataloaders train_dataloaders (epoch_num # epochs) self =
     (let batches = enumerate 0 (get_batches E (trace self) (batch_scheduler self) train_dataloaders);
          self = emit (Get_batches train_dataloaders) self
      in case train_batches E model dataloaders epoch_num batches self of
           (Some e, self) \<Rightarrow> (Some e, self)
         | (None, self) \<Rightarrow> train_epochs E model dataloaders train_dataloaders epochs self)"

text \<open>Lines 61 to 66, in their order.\<close>

definition set_training_helpers :: "('x, 'm, 's) env \<Rightarrow> 's trainer \<Rightarrow> error option \<times> 's trainer" where
  "set_training_helpers E self =
     seq (seq (seq (seq (seq (set_log_writer self) (set_checkpointer E)) set_log_manager)
       set_optimizer) (set_lr_scheduler E)) (set_batch_scheduler E)"

text \<open>
  \<open>train_model\<close> returns what the Python call evaluates to, \<open>None\<close> for Python's
  \<open>None\<close>, or the exception that left it, and the trainer as the call left it. The last
  statement, \<open>model = self.log_manager.close(model)\<close>, binds the local name
  \<open>model\<close>; no \<open>return\<close> statement follows.
\<close>

definition train_model :: "('x, 'm, 's) env \<Rightarrow> 'm \<Rightarrow> dataloader list \<Rightarrow> 's trainer
                             \<Rightarrow> (error + 'm option) \<times> 's trainer" where
  "train_model E model dataloaders self0 =
     (case check_dataloaders self0 dataloaders of
        Some e \<Rightarrow> (Inl e, self0)
      | None \<Rightarrow>
          (let train_dataloaders =
                 filter (\<lambda>dl. split (dataset dl) = train_split (config self0)) dataloaders;
               self = self0\<lparr>n_batches_per_epoch := sum_list (map len train_dataloaders)\<rparr>
           in case set_training_helpers E self of
                (Some e, self) \<Rightarrow> (Inl e, self)
              | (None, self) \<Rightarrow>
                  (let self = emit Model_train self;
                       self = self\<lparr>metrics := []\<rparr>;
                       self = reset_losses self
                   in case train_epochs E model dataloaders train_dataloaders
                             [0..<nat (n_epochs (config self))] self of
                        (Some e, self) \<Rightarrow> (Inl e, self)
                      | (None, self) \<Rightarrow>
                          (let model = close E (trace self) model;
                               self = emit LogManager_close self
                           in (Inr None, self)))))"

text \<open>
  Kinds of events: the parameter update of a batch (backward pass, gradient clipping,
  optimizer step), the logging step of a batch (everything \<open>_logging\<close> calls), the
  calls of \<open>model.score\<close>, and the events of the training loop as a whole.
\<close>

fun is_update_event :: "event \<Rightarrow> bool" where
  "is_update_event (Backward l) = True"
| "is_update_event (Clip_grad_norm g) = True"
| "is_update_event (Optimizer_step r) = True"
| "is_update_event ev = False"

fun is_logging_event :: "event \<Rightarrow> bool" where
  "is_logging_event Model_eval = True"
| "is_logging_event (LogManager_update n) = True"
| "is_logging_event Trigger_evaluation = True"
| "is_logging_event Trigger_checkpointing = True"
| "is_logging_event (Score ls) = True"
| "is_logging_event (Add_scalar n v p) = True"
| "is_logging_event (Checkpoint u ms) = True"
| "is_logging_event ev = False"

fun is_score_event :: "event \<Rightarrow> bool" where
  "is_score_event (Score ls) = True"
| "is_score_event ev = False"

fun is_training_event :: "event \<Rightarrow> bool" where
  "is_training_event (Get_batches ls) = True"
| "is_training_event Zero_grad = True"
| "is_training_event Calculate_loss = True"
| "is_training_event Model_train = True"
| "is_training_event LogManager_close = True"
| "is_training_event ev = (is_update_event ev \<or> is_logging_event ev)"

section \<open>Concrete inputs\<close>

text \<open>
  A configuration with the three usual split names, one epoch, no logging, no
  checkpointing, plain SGD and a constant schedule; a trainer fresh from \<open>__init__\<close>
  (the attributes \<open>train_model\<close> has yet to assign hold placeholders); loaders; and
  collaborators whose model answers every batch with the same losses and counts, whose
  batch scheduler yields \<open>len\<close> batches of two samples per loader, and whose
  schedulers count their steps and halve the rate at each.
\<close>

definition ex_config :: config where
  "ex_config =
     \<lparr>train_split = ''train'', valid_split = ''valid'', test_split = ''test'', n_epochs = 1,
      cfg_logging = False, log_writer_config = \<lparr>writer = ''json''\<rparr>,
      checkpointing = False, checkpointer_config = \<lparr>checkpoint_dir = None\<rparr>,
      optimizer_config = \<lparr>cfg_optimizer = ''sgd'', cfg_lr = 1, l2 = 0, grad_clip = None\<rparr>,
      lr_scheduler_config =
        \<lparr>cfg_lr_scheduler = ''constant'', cfg_warmup_steps = None, warmup_unit = ''batches'',
         warmup_percentage = None, min_lr = None\<rparr>,
      cfg_batch_scheduler = ''shuffled''\<rparr>"

definition ex_trainer :: "config \<Rightarrow> nat trainer" where
  "ex_trainer c =
     \<lparr>config = c, n_batches_per_epoch = 0, log_writer = None, checkpointer = None,
      log_manager = LogManager 0 None None,
      optimizer = \<lparr>opt_class = [], lr = 0, weight_decay = 0\<rparr>,
      warmup_steps = 0, warmup_scheduler = None, lr_scheduler = None, batch_scheduler = [],
      metrics = [], running_losses = [], running_counts = [], trace = []\<rparr>"

definition ex_loader :: "string \<Rightarrow> nat \<Rightarrow> dataloader" where
  "ex_loader s n = \<lparr>dataset = \<lparr>name = ''d'', split = s\<rparr>, len = n\<rparr>"

definition ex_env :: "(string \<times> real) list \<times> (string \<times> int) list \<Rightarrow> (unit, nat, nat) env" where
  "ex_env answer =
     \<lparr>log_dir = (\<lambda>tr. ''logs''),
      batch_schedulers = [''shuffled''],
      get_batches = (\<lambda>tr nm dls. concat (map (\<lambda>dl. replicate (len dl) (((), [(''t'', [1, 0])]), dl)) dls)),
      calculate_loss = (\<lambda>tr m x y. answer),
      score = (\<lambda>tr m dls. []),
      trigger_evaluation = (\<lambda>tr. False),
      trigger_checkpointing = (\<lambda>tr. False),
      point_total = (\<lambda>tr. 0),
      unit_total = (\<lambda>tr. 0),
      close = (\<lambda>tr m. Suc m),
      LambdaLR = (\<lambda>tr f r. case f 0 of Inl e \<Rightarrow> Inl e | Inr m \<Rightarrow> Inr (0, r)),
      ExponentialLR = (\<lambda>tr r. Inr (0, r)),
      StepLR = (\<lambda>tr r. Inr (0, r)),
      scheduler_step = (\<lambda>tr s r. Inr (Suc s, r / 2))\<rparr>"

text \<open>
  \<open>configuring_only self self'\<close>: from \<open>self\<close> to \<open>self'\<close> the trainer has
  called no collaborator of the training loop (model, batch scheduler, optimizer update,
  log manager); whatever it called was a constructor of the helpers.
\<close>

definition configuring_only :: "'s trainer \<Rightarrow> 's trainer \<Rightarrow> bool" where
  "configuring_only self self' =
     (\<exists>evs. trace self' = trace self @ evs \<and> \<not> list_ex is_training_event evs)"

section \<open>Validation of the loaders\<close>

text \<open>
  Claim C4, as the code has it. \<open>train_model\<close> validates the loaders before anything
  else. If some loader's split is none of \<open>train_split\<close>, \<open>valid_split\<close>,
  \<open>test_split\<close>, the call raises the \<open>ValueError\<close> of line 147 (the
  specification's \<open>InvalidSplitError\<close>). If every split is one of the three and none
  equals \<open>train_split\<close>, it raises the \<open>ValueError\<close> of line 150 (the
  specification's \<open>NoTrainingDataError\<close>). Either way the trainer is left exactly as
  it was: no attribute is assigned and no collaborator is called, so no training state
  exists, no file is written and no optimizer step is taken.
\<close>

theorem train_model_rejects_loaders:
  "((\<exists>d \<in> set dataloaders. split (dataset d) \<notin>
        {train_split (config self), valid_split (config self), test_split (config self)})
      \<longrightarrow> train_model E model dataloaders self = (Inl (ValueError InvalidSplitError), self))
   \<and> ((\<forall>d \<in> set dataloaders. split (dataset d) \<in>
        {train_split (config self), valid_split (config self), test_split (config self)})
       \<and> (\<forall>d \<in> set dataloaders. split (dataset d) \<noteq> train_split (config self))
      \<longrightarrow> train_model E model dataloaders self = (Inl (ValueError NoTrainingDataError), self))"
  by (auto simp: train_model_def check_dataloaders_def list_all_iff list_ex_iff)

theorem train_model_rejects_loaders_witness:
  "train_model (ex_env ([], [])) (0::nat) [ex_loader ''train'' 1, ex_loader ''bogus_split'' 1]
       (ex_trainer ex_config)
     = (Inl (ValueError InvalidSplitError), ex_trainer ex_config)
   \<and> train_model (ex_env ([], [])) (0::nat) [ex_loader ''valid'' 1] (ex_trainer ex_config)
     = (Inl (ValueError NoTrainingDataError), ex_trainer ex_config)"
proof
  show "train_model (ex_env ([], [])) (0::nat) [ex_loader ''train'' 1, ex_loader ''bogus_split'' 1]
          (ex_trainer ex_config)
        = (Inl (ValueError InvalidSplitError), ex_trainer ex_config)"
    using train_model_rejects_loaders
      [of "[ex_loader ''train'' 1, ex_loader ''bogus_split'' 1]" "ex_trainer ex_config"
          "ex_env ([], [])" "0::nat"]
    by (simp add: ex_loader_def ex_trainer_def ex_config_def)
  show "train_model (ex_env ([], [])) (0::nat) [ex_loader ''valid'' 1] (ex_trainer ex_config)
        = (Inl (ValueError NoTrainingDataError), ex_trainer ex_config)"
    using train_model_rejects_loaders
      [of "[ex_loader ''valid'' 1]" "ex_trainer ex_config" "ex_env ([], [])" "0::nat"]
    by (simp add: ex_loader_def ex_trainer_def ex_config_def)
qed

text \<open>
  The claim as written promises \<open>NoTrainingDataError\<close> whenever no loader has the
  training split. A single loader with an unknown split has no training loader either,
  and the first check answers: the exception is the one of line 147.
\<close>

theorem no_train_loader_other_error:
  "split (dataset (ex_loader ''bogus_split'' 1)) \<noteq> train_split (config (ex_trainer ex_config))
   \<and> fst (train_model (ex_env ([], [])) (0::nat) [ex_loader ''bogus_split'' 1] (ex_trainer ex_config))
       = Inl (ValueError InvalidSplitError)
   \<and> fst (train_model (ex_env ([], [])) (0::nat) [ex_loader ''bogus_split'' 1] (ex_trainer ex_config))
       \<noteq> Inl (ValueError NoTrainingDataError)"
  by (simp add: train_model_def check_dataloaders_def ex_loader_def ex_trainer_def ex_config_def)

section \<open>Frame lemmas\<close>

lemma emit_simps [simp]:
  "trace (emit ev self) = trace self @ [ev]"
  "config (emit ev self) = config self"
  "n_batches_per_epoch (emit ev self) = n_batches_per_epoch self"
  "log_writer (emit ev self) = log_writer self"
  "checkpointer (emit ev self) = checkpointer self"
  "optimizer (emit ev self) = optimizer self"
  "warmup_steps (emit ev self) = warmup_steps self"
  "warmup_scheduler (emit ev self) = warmup_scheduler self"
  "lr_scheduler (emit ev self) = lr_scheduler self"
  "batch_scheduler (emit ev self) = batch_scheduler self"
  "metrics (emit ev self) = metrics self"
  "running_losses (emit ev self) = running_losses self"
  "running_counts (emit ev self) = running_counts self"
  by (simp_all add: emit_def)

lemma seq_pres:
  assumes "\<And>s. g (snd (f s)) = g s"
  shows "g (snd (seq r f)) = g (snd r)"
  using assms by (cases r) (auto simp: seq_def split: option.splits)

lemmas nb_seq = seq_pres [where g = n_batches_per_epoch]

text \<open>No method but \<open>train_model\<close> itself assigns \<open>n_batches_per_epoch\<close>.\<close>

lemma nb_set_log_writer:
  "n_batches_per_epoch (snd (set_log_writer self)) = n_batches_per_epoch self"
  by (simp add: set_log_writer_def Let_def)

lemma nb_set_checkpointer:
  "n_batches_per_epoch (snd (set_checkpointer E self)) = n_batches_per_epoch self"
  by (simp add: set_checkpointer_def Let_def)

lemma nb_set_log_manager:
  "n_batches_per_epoch (snd (set_log_manager self)) = n_batches_per_epoch self"
  by (simp add: set_log_manager_def)

lemma nb_set_optimizer:
  "n_batches_per_epoch (snd (set_optimizer self)) = n_batches_per_epoch self"
  by (simp add: set_optimizer_def Let_def)

lemma nb_build_warmup_scheduler:
  "n_batches_per_epoch (snd (build_warmup_scheduler E self)) = n_batches_per_epoch self"
  by (simp add: build_warmup_scheduler_def split: sum.splits prod.splits)

lemma nb_set_warmup_scheduler:
  "n_batches_per_epoch (snd (set_warmup_scheduler E self)) = n_batches_per_epoch self"
  by (simp add: set_warmup_scheduler_def Let_def nb_build_warmup_scheduler)

lemma nb_built_lr_scheduler:
  "n_batches_per_epoch (snd (built_lr_scheduler self r)) = n_batches_per_epoch self"
  by (simp add: built_lr_scheduler_def split: sum.splits prod.splits)

lemma nb_set_lr_scheduler:
  "n_batches_per_epoch (snd (set_lr_scheduler E self)) = n_batches_per_epoch self"
  unfolding set_lr_scheduler_def
  by (subst nb_seq) (simp_all add: nb_set_warmup_scheduler nb_built_lr_scheduler Let_def)

lemma nb_set_batch_scheduler:
  "n_batches_per_epoch (snd (set_batch_scheduler E self)) = n_batches_per_epoch self"
  by (simp add: set_batch_scheduler_def)

lemma nb_set_training_helpers:
  "n_batches_per_epoch (snd (set_training_helpers E self)) = n_batches_per_epoch self"
  unfolding set_training_helpers_def
  by (simp add: nb_seq nb_set_log_writer nb_set_checkpointer nb_set_log_manager nb_set_optimizer
        nb_set_lr_scheduler nb_set_batch_scheduler)

lemma nb_update_lr_scheduler:
  "n_batches_per_epoch (snd (update_lr_scheduler E step self)) = n_batches_per_epoch self"
  by (simp add: update_lr_scheduler_def Let_def split: sum.splits prod.splits)

lemma nb_update_running:
  "n_batches_per_epoch (snd (update_running dl ld cd ts self)) = n_batches_per_epoch self"
  by (induction ts arbitrary: self) (simp_all add: Let_def split: prod.splits option.splits)

lemma nb_aggregate_losses:
  "n_batches_per_epoch (snd (aggregate_losses self)) = n_batches_per_epoch self"
  by (simp add: aggregate_losses_def Let_def split: prod.splits)

lemma nb_fold_emit:
  "n_batches_per_epoch (fold (\<lambda>(metric_name, metric_value) self.
      emit (Add_scalar metric_name metric_value (point_total E (trace self))) self) md self)
   = n_batches_per_epoch self"
  by (induction md arbitrary: self) (simp_all add: case_prod_beta)

lemma nb_log_metrics: "n_batches_per_epoch (log_metrics E md self) = n_batches_per_epoch self"
  by (simp add: log_metrics_def nb_fold_emit)

lemma nb_logging:
  "n_batches_per_epoch (snd (logging E model dls bs self)) = n_batches_per_epoch self"
  by (simp add: logging_def Let_def case_prod_beta evaluate_def reset_losses_def
        checkpoint_model_def nb_log_metrics nb_aggregate_losses)

lemma nb_train_batch:
  "n_batches_per_epoch (snd (train_batch E model dls en bn b dl self)) = n_batches_per_epoch self"
  by (simp add: train_batch_def Let_def case_prod_beta nb_seq nb_update_running nb_logging
        nb_update_lr_scheduler split: list.splits)

lemma nb_train_batches:
  "n_batches_per_epoch (snd (train_batches E model dls en bs self)) = n_batches_per_epoch self"
proof (induction bs arbitrary: self)
  case Nil
  show ?case by simp
next
  case (Cons b bs)
  obtain bn bt dl where b: "b = (bn, bt, dl)" by (cases b)
  obtain r s where r: "train_batch E model dls en bn bt dl self = (r, s)" by force
  have "n_batches_per_epoch s = n_batches_per_epoch self"
    using nb_train_batch [of E model dls en bn bt dl self] r by simp
  then show ?case using Cons.IH [of s] b r by (cases r) simp_all
qed

lemma nb_train_epochs:
  "n_batches_per_epoch (snd (train_epochs E model dls tdls es self)) = n_batches_per_epoch self"
proof (induction es arbitrary: self)
  case Nil
  show ?case by simp
next
  case (Cons en es)
  define self1 where "self1 = emit (Get_batches tdls) self"
  define bs where "bs = enumerate 0 (get_batches E (trace self) (batch_scheduler self) tdls)"
  obtain r s where r: "train_batches E model dls en bs self1 = (r, s)" by force
  have "n_batches_per_epoch s = n_batches_per_epoch self"
    using nb_train_batches [of E model dls en bs self1] r by (simp add: self1_def)
  then show ?case using Cons.IH [of s] r
    by (cases r) (simp_all add: Let_def self1_def bs_def)
qed

section \<open>Batches per epoch\<close>

text \<open>
  Claim C5. Once the loaders have passed validation, \<open>train_model\<close> sets
  \<open>n_batches_per_epoch\<close> to the sum of the lengths of the loaders whose split equals
  \<open>train_split\<close>, and to nothing else until the call ends, however it ends; the other
  loaders are filtered out before the sum.
\<close>

theorem n_batches_per_epoch_train_loaders:
  assumes "check_dataloaders self dataloaders = None"
  shows "n_batches_per_epoch (snd (train_model E model dataloaders self))
         = sum_list (map len (filter (\<lambda>dl. split (dataset dl) = train_split (config self)) dataloaders))"
proof -
  define tdls where "tdls = filter (\<lambda>dl. split (dataset dl) = train_split (config self)) dataloaders"
  define self1 where "self1 = self\<lparr>n_batches_per_epoch := sum_list (map len tdls)\<rparr>"
  obtain r s where r: "set_training_helpers E self1 = (r, s)" by force
  have s: "n_batches_per_epoch s = sum_list (map len tdls)"
    using nb_set_training_helpers [of E self1] r by (simp add: self1_def)
  show ?thesis
  proof (cases r)
    case (Some e)
    then show ?thesis using assms r s
      by (simp add: train_model_def Let_def tdls_def [symmetric] self1_def [symmetric])
  next
    case None
    define self2 where "self2 = reset_losses ((emit Model_train s)\<lparr>metrics := []\<rparr>)"
    obtain r' s' where r': "train_epochs E model dataloaders tdls [0..<nat (n_epochs (config self2))] self2 = (r', s')"
      by force
    have "n_batches_per_epoch s' = sum_list (map len tdls)"
      using nb_train_epochs [of E model dataloaders tdls "[0..<nat (n_epochs (config self2))]" self2] r' s
      by (simp add: self2_def reset_losses_def)
    then show ?thesis using assms r None r'
      by (cases r')
         (simp_all add: train_model_def Let_def tdls_def [symmetric] self1_def [symmetric]
            self2_def [symmetric])
  qed
qed

theorem n_batches_per_epoch_train_loaders_witness:
  "check_dataloaders (ex_trainer ex_config)
       [ex_loader ''train'' 3, ex_loader ''valid'' 5, ex_loader ''train'' 4, ex_loader ''test'' 7] = None
   \<and> n_batches_per_epoch (snd (train_model (ex_env ([], [])) (0::nat)
       [ex_loader ''train'' 3, ex_loader ''valid'' 5, ex_loader ''train'' 4, ex_loader ''test'' 7]
       (ex_trainer ex_config))) = 7"
proof -
  have h: "check_dataloaders (ex_trainer ex_config)
       [ex_loader ''train'' 3, ex_loader ''valid'' 5, ex_loader ''train'' 4, ex_loader ''test'' 7] = None"
    by (simp add: check_dataloaders_def ex_trainer_def ex_config_def ex_loader_def)
  show ?thesis
    using h n_batches_per_epoch_train_loaders [OF h, of "ex_env ([], [])" "0::nat"]
    by (simp add: ex_trainer_def ex_config_def ex_loader_def)
qed

section \<open>Stepping the learning-rate schedule\<close>

text \<open>
  Claim C6. One call of \<open>_update_lr_scheduler\<close> steps at most one of the two
  schedulers. If a warmup scheduler exists and \<open>step < warmup_steps\<close>, the warmup
  scheduler alone is stepped: what the call does is that scheduler's \<open>step()\<close>, and the
  decay scheduler is left as it was. Otherwise the warmup scheduler is left as it was,
  and the decay scheduler, when there is one, is stepped; with no decay scheduler the
  call changes nothing. So after any call one of the two schedulers is as before.
\<close>

theorem warmup_decay_exclusive:
  "(warmup_scheduler self = Some w \<and> step < warmup_steps self \<longrightarrow>
      update_lr_scheduler E step self
        = (case scheduler_step E (trace self) w (lr (optimizer self)) of
             Inl e \<Rightarrow> (Some e, self)
           | Inr (s, r) \<Rightarrow> (None, self\<lparr>optimizer := (optimizer self)\<lparr>lr := r\<rparr>,
                                       warmup_scheduler := Some s\<rparr>))
      \<and> lr_scheduler (snd (update_lr_scheduler E step self)) = lr_scheduler self)
   \<and> (\<not> (warmup_scheduler self \<noteq> None \<and> step < warmup_steps self) \<longrightarrow>
        warmup_scheduler (snd (update_lr_scheduler E step self)) = warmup_scheduler self
        \<and> (lr_scheduler self = None \<longrightarrow> update_lr_scheduler E step self = (None, self))
        \<and> (\<forall>d s r. lr_scheduler self = Some d
               \<and> scheduler_step E (trace self) d (lr (optimizer self)) = Inr (s, r)
             \<longrightarrow> lr_scheduler (snd (update_lr_scheduler E step self)) = Some s))
   \<and> (lr_scheduler (snd (update_lr_scheduler E step self)) = lr_scheduler self
        \<or> warmup_scheduler (snd (update_lr_scheduler E step self)) = warmup_scheduler self)"
  by (auto simp: update_lr_scheduler_def Let_def split: sum.splits prod.splits)

text \<open>
  With three warmup steps and both schedulers fresh, step 2 advances the warmup
  scheduler only and step 3 the decay scheduler only.
\<close>

theorem warmup_decay_exclusive_witness:
  "warmup_scheduler (snd (update_lr_scheduler (ex_env ([], [])) 2
       ((ex_trainer ex_config)\<lparr>warmup_steps := 3, warmup_scheduler := Some 0, lr_scheduler := Some 0\<rparr>)))
     = Some 1
   \<and> lr_scheduler (snd (update_lr_scheduler (ex_env ([], [])) 2
       ((ex_trainer ex_config)\<lparr>warmup_steps := 3, warmup_scheduler := Some 0, lr_scheduler := Some 0\<rparr>)))
     = Some 0
   \<and> warmup_scheduler (snd (update_lr_scheduler (ex_env ([], [])) 3
       ((ex_trainer ex_config)\<lparr>warmup_steps := 3, warmup_scheduler := Some 0, lr_scheduler := Some 0\<rparr>)))
     = Some 0
   \<and> lr_scheduler (snd (update_lr_scheduler (ex_env ([], [])) 3
       ((ex_trainer ex_config)\<lparr>warmup_steps := 3, warmup_scheduler := Some 0, lr_scheduler := Some 0\<rparr>)))
     = Some 1"
  using warmup_decay_exclusive
      [of "(ex_trainer ex_config)\<lparr>warmup_steps := 3, warmup_scheduler := Some 0, lr_scheduler := Some 0\<rparr>"
          0 2 "ex_env ([], [])"]
    warmup_decay_exclusive
      [of "(ex_trainer ex_config)\<lparr>warmup_steps := 3, warmup_scheduler := Some 0, lr_scheduler := Some 0\<rparr>"
          0 3 "ex_env ([], [])"]
  by (simp add: ex_trainer_def ex_env_def)

text \<open>
  Claim C7. Take a call of \<open>_update_lr_scheduler\<close> that steps the decay scheduler (no
  warmup scheduler, or \<open>step\<close> not below \<open>warmup_steps\<close>), with a floor configured:
  \<open>min_lr\<close> is a number other than zero, which is what the test \<open>if min_lr\<close> of
  line 318 asks. Let \<open>r\<close> be the rate the decay step leaves at the optimizer. If
  \<open>r < min_lr\<close> the call leaves exactly \<open>min_lr\<close> there, otherwise it leaves
  \<open>r\<close>; either way the rate after the call is not below \<open>min_lr\<close>.
\<close>

theorem decay_step_floor:
  assumes "\<not> (warmup_scheduler self \<noteq> None \<and> step < warmup_steps self)"
    and "lr_scheduler self = Some d"
    and "scheduler_step E (trace self) d (lr (optimizer self)) = Inr (s, r)"
    and "min_lr (lr_scheduler_config (config self)) = Some m"
    and "m \<noteq> 0"
  shows "fst (update_lr_scheduler E step self) = None
         \<and> (r < m \<longrightarrow> lr (optimizer (snd (update_lr_scheduler E step self))) = m)
         \<and> (\<not> r < m \<longrightarrow> lr (optimizer (snd (update_lr_scheduler E step self))) = r)
         \<and> m \<le> lr (optimizer (snd (update_lr_scheduler E step self)))"
  using assms by (auto simp: update_lr_scheduler_def Let_def)

text \<open>
  A decay step that halves the rate 1 to 1/2, under a floor of 3/4: the optimizer is
  left with 3/4.
\<close>

theorem decay_step_floor_witness:
  "lr (optimizer (snd (update_lr_scheduler (ex_env ([], [])) 0
       ((ex_trainer (ex_config\<lparr>lr_scheduler_config :=
            (lr_scheduler_config ex_config)\<lparr>min_lr := Some (3 / 4)\<rparr>\<rparr>))
          \<lparr>optimizer := \<lparr>opt_class = ''SGD'', lr = 1, weight_decay = 0\<rparr>,
           lr_scheduler := Some 0\<rparr>)))) = 3 / 4"
proof -
  let ?self = "(ex_trainer (ex_config\<lparr>lr_scheduler_config :=
            (lr_scheduler_config ex_config)\<lparr>min_lr := Some (3 / 4)\<rparr>\<rparr>))
          \<lparr>optimizer := \<lparr>opt_class = ''SGD'', lr = 1, weight_decay = 0\<rparr>,
           lr_scheduler := Some (0::nat)\<rparr>"
  have 1: "\<not> (warmup_scheduler ?self \<noteq> None \<and> 0 < warmup_steps ?self)"
    by (simp add: ex_trainer_def)
  have 2: "lr_scheduler ?self = Some 0" by simp
  have 3: "scheduler_step (ex_env ([], [])) (trace ?self) 0 (lr (optimizer ?self)) = Inr (Suc 0, 1 / 2)"
    by (simp add: ex_env_def)
  have 4: "min_lr (lr_scheduler_config (config ?self)) = Some (3 / 4)"
    by (simp add: ex_trainer_def)
  have 5: "(3 / 4 :: real) \<noteq> 0" by simp
  show ?thesis using decay_step_floor [OF 1 2 3 4 5] by simp
qed

section \<open>Constructing the warmup schedule\<close>

lemma seq_Some: "fst r = Some e \<Longrightarrow> seq r f = r"
  by (cases r) (simp add: seq_def)

lemma seq_None: "fst r = None \<Longrightarrow> seq r f = f (snd r)"
  by (cases r) (simp add: seq_def)

lemma configuring_only_refl: "configuring_only self self"
  by (simp add: configuring_only_def)

lemma configuring_only_trans:
  "configuring_only a b \<Longrightarrow> configuring_only b c \<Longrightarrow> configuring_only a c"
  by (auto simp: configuring_only_def list_ex_iff)

lemma configuring_only_seq:
  assumes "configuring_only self (snd r)" and "\<And>s. configuring_only s (snd (f s))"
  shows "configuring_only self (snd (seq r f))"
proof (cases "fst r")
  case None
  then show ?thesis
    using assms configuring_only_trans [of self "snd r" "snd (f (snd r))"] by (simp add: seq_None)
next
  case (Some e)
  then show ?thesis using assms by (simp add: seq_Some)
qed

lemma co_set_log_writer: "configuring_only self (snd (set_log_writer self))"
  by (simp add: configuring_only_def set_log_writer_def Let_def)

lemma co_set_checkpointer: "configuring_only self (snd (set_checkpointer E self))"
  by (simp add: configuring_only_def set_checkpointer_def Let_def)

lemma co_set_log_manager: "configuring_only self (snd (set_log_manager self))"
  by (simp add: configuring_only_def set_log_manager_def)

lemma co_set_optimizer: "configuring_only self (snd (set_optimizer self))"
  by (simp add: configuring_only_def set_optimizer_def Let_def)

lemma co_build_warmup_scheduler: "configuring_only self (snd (build_warmup_scheduler E self))"
  by (simp add: configuring_only_def build_warmup_scheduler_def split: sum.splits prod.splits)

lemma co_set_warmup_scheduler: "configuring_only self (snd (set_warmup_scheduler E self))"
proof -
  have "configuring_only self (snd (build_warmup_scheduler E (self\<lparr>warmup_steps := n\<rparr>)))" for n
    using co_build_warmup_scheduler [of "self\<lparr>warmup_steps := n\<rparr>" E]
    by (simp add: configuring_only_def)
  then show ?thesis
    by (simp add: set_warmup_scheduler_def Let_def configuring_only_refl)
       (simp add: configuring_only_def)
qed

lemma co_built_lr_scheduler: "configuring_only self (snd (built_lr_scheduler self r))"
  by (simp add: configuring_only_def built_lr_scheduler_def split: sum.splits prod.splits)

lemma co_lr_scheduler_None: "configuring_only self (self\<lparr>lr_scheduler := None\<rparr>)"
  by (simp add: configuring_only_def)

lemma co_set_lr_scheduler: "configuring_only self (snd (set_lr_scheduler E self))"
  unfolding set_lr_scheduler_def
  by (rule configuring_only_seq)
     (simp_all add: co_set_warmup_scheduler Let_def co_built_lr_scheduler configuring_only_refl
        co_lr_scheduler_None)

lemma co_set_batch_scheduler: "configuring_only self (snd (set_batch_scheduler E self))"
  by (simp add: configuring_only_def set_batch_scheduler_def)

lemma co_set_training_helpers: "configuring_only self (snd (set_training_helpers E self))"
  unfolding set_training_helpers_def
  by (intro configuring_only_seq co_set_log_writer co_set_checkpointer co_set_log_manager
        co_set_optimizer co_set_lr_scheduler co_set_batch_scheduler)

lemma lsc_seq:
  assumes "\<And>s. lr_scheduler_config (config (snd (f s))) = lr_scheduler_config (config s)"
  shows "lr_scheduler_config (config (snd (seq r f))) = lr_scheduler_config (config (snd r))"
  using assms by (cases r) (auto simp: seq_def split: option.splits)

lemma oc_seq:
  assumes "\<And>s. optimizer_config (config (snd (f s))) = optimizer_config (config s)"
  shows "optimizer_config (config (snd (seq r f))) = optimizer_config (config (snd r))"
  using assms by (cases r) (auto simp: seq_def split: option.splits)

text \<open>
  The helpers that run before \<open>_set_lr_scheduler\<close>, lines 61 to 64: they leave the
  optimizer's and the schedule's configuration as they were, and they raise only on an
  unrecognized writer or optimizer.
\<close>

lemma first_helpers_lsc:
  "lr_scheduler_config (config (snd (seq (seq (seq (set_log_writer self) (set_checkpointer E))
       set_log_manager) set_optimizer))) = lr_scheduler_config (config self)"
  by (simp add: lsc_seq set_log_writer_def set_checkpointer_def set_log_manager_def
        set_optimizer_def Let_def)

lemma first_helpers_succeed:
  assumes "cfg_logging (config self) \<longrightarrow>
             writer (log_writer_config (config self)) \<in> {''json'', ''tensorboard''}"
    and "cfg_optimizer (optimizer_config (config self)) \<in> {''sgd'', ''adam'', ''adamax''}"
  shows "fst (seq (seq (seq (set_log_writer self) (set_checkpointer E)) set_log_manager)
           set_optimizer) = None"
proof -
  have 1: "fst (set_log_writer self) = None"
    using assms(1) by (auto simp: set_log_writer_def Let_def)
  have 2: "fst (seq (set_log_writer self) (set_checkpointer E)) = None"
    using 1 by (simp add: seq_None set_checkpointer_def Let_def)
  have 3: "fst (seq (seq (set_log_writer self) (set_checkpointer E)) set_log_manager) = None"
    using 2 by (simp add: seq_None set_log_manager_def)
  have "optimizer_config (config (snd (seq (seq (set_log_writer self) (set_checkpointer E))
          set_log_manager))) = optimizer_config (config self)"
    by (simp add: oc_seq set_log_writer_def set_checkpointer_def set_log_manager_def Let_def)
  then have "fst (set_optimizer (snd (seq (seq (set_log_writer self) (set_checkpointer E))
          set_log_manager))) = None"
    using assms(2) by (auto simp: set_optimizer_def Let_def)
  then show ?thesis using 3 by (simp add: seq_None)
qed

lemma set_warmup_scheduler_negative:
  assumes "cfg_warmup_steps (lr_scheduler_config (config self)) = Some w" and "w < 0"
  shows "set_warmup_scheduler E self = (Some (ValueError InvalidWarmupError), self)"
  using assms by (simp add: set_warmup_scheduler_def Let_def)

lemma set_training_helpers_negative:
  assumes "cfg_warmup_steps (lr_scheduler_config (config self)) = Some w" and "w < 0"
  shows "fst (set_training_helpers E self) \<noteq> None"
    and "fst (seq (seq (seq (set_log_writer self) (set_checkpointer E)) set_log_manager)
           set_optimizer) = None
         \<Longrightarrow> fst (set_training_helpers E self) = Some (ValueError InvalidWarmupError)"
proof -
  let ?B = "seq (seq (seq (set_log_writer self) (set_checkpointer E)) set_log_manager) set_optimizer"
  have neg: "cfg_warmup_steps (lr_scheduler_config (config (snd ?B))) = Some w"
    using assms(1) by (simp add: first_helpers_lsc)
  have lr: "set_lr_scheduler E (snd ?B) = (Some (ValueError InvalidWarmupError), snd ?B)"
    using set_warmup_scheduler_negative [OF neg assms(2), of E]
    by (simp add: set_lr_scheduler_def seq_def)
  have ok: "fst (set_training_helpers E self) = Some (ValueError InvalidWarmupError)"
    if "fst ?B = None"
    using that lr by (simp add: set_training_helpers_def seq_None seq_Some)
  show "fst ?B = None \<Longrightarrow> fst (set_training_helpers E self) = Some (ValueError InvalidWarmupError)"
    by (rule ok)
  show "fst (set_training_helpers E self) \<noteq> None"
  proof (cases "fst ?B")
    case None
    then show ?thesis using ok by simp
  next
    case (Some e)
    then show ?thesis by (simp add: set_training_helpers_def seq_Some)
  qed
qed

text \<open>
  Claim C8. With a negative explicit count \<open>warmup_steps\<close> in the configuration,
  \<open>_set_warmup_scheduler\<close> raises the \<open>ValueError\<close> of line 279 (the specification's
  \<open>InvalidWarmupError\<close>) and leaves the trainer as it was. \<open>train_model\<close> then never
  returns normally and never reaches the training loop: from the start of the call to
  the exception, no collaborator of the loop has been called. When the loaders are valid
  and the writer and optimizer names are recognized, so that the call gets as far as the
  warmup schedule, the exception that leaves \<open>train_model\<close> is that \<open>ValueError\<close>.
\<close>

theorem negative_warmup_steps_rejected:
  assumes "cfg_warmup_steps (lr_scheduler_config (config self)) = Some w" and "w < 0"
  shows "set_warmup_scheduler E self = (Some (ValueError InvalidWarmupError), self)
         \<and> (\<exists>e. fst (train_model E model dataloaders self) = Inl e)
         \<and> configuring_only self (snd (train_model E model dataloaders self))
         \<and> (check_dataloaders self dataloaders = None
              \<and> (cfg_logging (config self) \<longrightarrow>
                    writer (log_writer_config (config self)) \<in> {''json'', ''tensorboard''})
              \<and> cfg_optimizer (optimizer_config (config self)) \<in> {''sgd'', ''adam'', ''adamax''}
            \<longrightarrow> fst (train_model E model dataloaders self) = Inl (ValueError InvalidWarmupError))"
proof (cases "check_dataloaders self dataloaders")
  case (Some e)
  then show ?thesis
    using set_warmup_scheduler_negative [OF assms, of E]
    by (simp add: train_model_def configuring_only_refl)
next
  case None
  define self1 where "self1 = self\<lparr>n_batches_per_epoch :=
    sum_list (map len (filter (\<lambda>dl. split (dataset dl) = train_split (config self)) dataloaders))\<rparr>"
  have neg1: "cfg_warmup_steps (lr_scheduler_config (config self1)) = Some w"
    using assms(1) by (simp add: self1_def)
  obtain r s where rs: "set_training_helpers E self1 = (r, s)" by force
  obtain e where e: "r = Some e"
    using set_training_helpers_negative(1) [OF neg1 assms(2), of E] rs by auto
  have tm: "train_model E model dataloaders self = (Inl e, s)"
    using None rs e by (simp add: train_model_def Let_def self1_def [symmetric])
  have "configuring_only self1 s"
    using co_set_training_helpers [of self1 E] rs by simp
  then have co: "configuring_only self s"
    by (simp add: configuring_only_def self1_def)
  have exact: "e = ValueError InvalidWarmupError"
    if "cfg_logging (config self) \<longrightarrow>
          writer (log_writer_config (config self)) \<in> {''json'', ''tensorboard''}"
      and "cfg_optimizer (optimizer_config (config self)) \<in> {''sgd'', ''adam'', ''adamax''}"
  proof -
    have "fst (seq (seq (seq (set_log_writer self1) (set_checkpointer E)) set_log_manager)
            set_optimizer) = None"
      by (rule first_helpers_succeed) (use that in \<open>simp_all add: self1_def\<close>)
    then show ?thesis
      using set_training_helpers_negative(2) [OF neg1 assms(2), of E] rs e by simp
  qed
  show ?thesis
    using set_warmup_scheduler_negative [OF assms, of E] tm co exact by simp
qed

theorem negative_warmup_steps_rejected_witness:
  "fst (train_model (ex_env ([], [])) (0::nat) [ex_loader ''train'' 2]
     (ex_trainer (ex_config\<lparr>lr_scheduler_config :=
         (lr_scheduler_config ex_config)\<lparr>cfg_warmup_steps := Some (- 1)\<rparr>\<rparr>)))
   = Inl (ValueError InvalidWarmupError)"
proof -
  let ?self = "ex_trainer (ex_config\<lparr>lr_scheduler_config :=
         (lr_scheduler_config ex_config)\<lparr>cfg_warmup_steps := Some (- 1)\<rparr>\<rparr>) :: nat trainer"
  have 1: "cfg_warmup_steps (lr_scheduler_config (config ?self)) = Some (- 1)"
    by (simp add: ex_trainer_def)
  have 2: "(- 1 :: real) < 0" by simp
  have 3: "check_dataloaders ?self [ex_loader ''train'' 2] = None"
    by (simp add: check_dataloaders_def ex_trainer_def ex_config_def ex_loader_def)
  have 4: "cfg_logging (config ?self) \<longrightarrow>
             writer (log_writer_config (config ?self)) \<in> {''json'', ''tensorboard''}"
    by (simp add: ex_trainer_def ex_config_def)
  have 5: "cfg_optimizer (optimizer_config (config ?self)) \<in> {''sgd'', ''adam'', ''adamax''}"
    by (simp add: ex_trainer_def ex_config_def)
  show ?thesis
    using negative_warmup_steps_rejected
            [OF 1 2, of "ex_env ([], [])" "0::nat" "[ex_loader ''train'' 2]"] 3 4 5
    by blast
qed

section \<open>The loaders of an evaluation\<close>

lemma str_prefix_iff: "str_prefix xs ys \<longleftrightarrow> (\<exists>ss. ys = xs @ ss)"
  by (induction xs ys rule: str_prefix.induct) auto

lemma str_in_iff: "str_in xs ys \<longleftrightarrow> (\<exists>ps ss. ys = ps @ xs @ ss)"
proof (induction ys)
  case Nil
  show ?case by simp
next
  case (Cons y ys)
  have "(\<exists>ps ss. y # ys = ps @ xs @ ss)
        \<longleftrightarrow> (\<exists>ss. y # ys = xs @ ss) \<or> (\<exists>ps ss. ys = ps @ xs @ ss)"
  proof
    assume "\<exists>ps ss. y # ys = ps @ xs @ ss"
    then obtain ps ss where eq: "y # ys = ps @ xs @ ss" by blast
    show "(\<exists>ss. y # ys = xs @ ss) \<or> (\<exists>ps ss. ys = ps @ xs @ ss)"
    proof (cases ps)
      case Nil
      then show ?thesis using eq by auto
    next
      case (Cons p ps')
      then have "ys = ps' @ xs @ ss" using eq by simp
      then show ?thesis by blast
    qed
  next
    assume "(\<exists>ss. y # ys = xs @ ss) \<or> (\<exists>ps ss. ys = ps @ xs @ ss)"
    then show "\<exists>ps ss. y # ys = ps @ xs @ ss"
    proof
      assume "\<exists>ss. y # ys = xs @ ss"
      then obtain ss where "y # ys = [] @ xs @ ss" by auto
      then show ?thesis by blast
    next
      assume "\<exists>ps ss. ys = ps @ xs @ ss"
      then obtain ps ss where "y # ys = (y # ps) @ xs @ ss" by auto
      then show ?thesis by blast
    qed
  qed
  then show ?case using Cons.IH by (simp add: str_prefix_iff)
qed

lemma evaluate_loaders_iff:
  "d \<in> set (evaluate_loaders dataloaders splt)
   \<longleftrightarrow> d \<in> set dataloaders \<and> (\<exists>ps ss. splt = ps @ split (dataset d) @ ss)"
  by (simp add: evaluate_loaders_def str_in_iff)

lemma aggregate_losses_frame:
  "trace (snd (aggregate_losses self)) = trace self"
  "config (snd (aggregate_losses self)) = config self"
  by (simp_all add: aggregate_losses_def Let_def case_prod_beta)

lemma fold_add_scalar_mono:
  "ev \<in> set (trace self) \<Longrightarrow>
   ev \<in> set (trace (fold (\<lambda>(metric_name, metric_value) self.
      emit (Add_scalar metric_name metric_value (point_total E (trace self))) self) md self))"
  by (induction md arbitrary: self) (simp_all add: case_prod_beta)

lemma log_metrics_mono:
  "ev \<in> set (trace self) \<Longrightarrow> ev \<in> set (trace (log_metrics E md self))"
  by (simp add: log_metrics_def fold_add_scalar_mono)

lemma logging_scores_valid_split:
  assumes "trigger_evaluation E (trace self @ [Model_eval, LogManager_update batch_size])"
  shows "Score (evaluate_loaders dataloaders (valid_split (config self)))
           \<in> set (trace (snd (logging E model dataloaders batch_size self)))"
proof -
  define s1 where "s1 = snd (aggregate_losses (emit (LogManager_update batch_size) (emit Model_eval self)))"
  have t1: "trace s1 = trace self @ [Model_eval, LogManager_update batch_size]"
    and c1: "config s1 = config self"
    by (simp_all add: s1_def aggregate_losses_frame)
  define s2 where "s2 = emit (Score (evaluate_loaders dataloaders (valid_split (config self))))
                          (emit Trigger_evaluation s1)"
  have "Score (evaluate_loaders dataloaders (valid_split (config self))) \<in> set (trace s2)"
    by (simp add: s2_def)
  then have m: "Score (evaluate_loaders dataloaders (valid_split (config self)))
                  \<in> set (trace (log_metrics E md s2))" for md
    by (rule log_metrics_mono)
  show ?thesis
    using assms m
    by (simp add: logging_def Let_def case_prod_beta evaluate_def reset_losses_def
          checkpoint_model_def s1_def [symmetric] t1 c1 s2_def [symmetric])
qed

lemma scores_fold_add_scalar:
  "filter is_score_event (trace (fold (\<lambda>(metric_name, metric_value) self.
      emit (Add_scalar metric_name metric_value (point_total E (trace self))) self) md self))
   = filter is_score_event (trace self)"
  by (induction md arbitrary: self) (simp_all add: case_prod_beta)

lemma scores_log_metrics:
  "filter is_score_event (trace (log_metrics E md self)) = filter is_score_event (trace self)"
  by (simp add: log_metrics_def scores_fold_add_scalar)

text \<open>
  The calls of \<open>model.score\<close> that one call of \<open>_logging\<close> adds to the trace: one,
  on the loaders \<open>_evaluate\<close> selects for \<open>valid_split\<close>, when the log manager
  triggers an evaluation, and none otherwise.
\<close>

lemma logging_scores:
  "filter is_score_event (trace (snd (logging E model dataloaders batch_size self)))
   = filter is_score_event (trace self)
     @ (if trigger_evaluation E (trace self @ [Model_eval, LogManager_update batch_size])
        then [Score (evaluate_loaders dataloaders (valid_split (config self)))] else [])"
  by (simp add: logging_def Let_def case_prod_beta evaluate_def reset_losses_def
        checkpoint_model_def aggregate_losses_frame scores_log_metrics)

text \<open>
  Claim C9. \<open>_evaluate\<close> selects the loaders to score by substring containment: the
  loaders passed to \<open>model.score\<close> are, in their order, exactly the loaders whose split
  occurs in the given split string as a contiguous substring. A loader is scored if and
  only if its split is such a substring, whether or not the two strings are equal, and a
  loader whose split does not occur in the string is left out. \<open>_logging\<close> calls
  \<open>_evaluate\<close> with the configured \<open>valid_split\<close>, once when the log manager
  triggers an evaluation and not otherwise, so the loaders evaluated are exactly those
  whose split is a substring of \<open>valid_split\<close>.
\<close>

theorem evaluate_selects_by_containment:
  "evaluate_loaders dataloaders splt
     = filter (\<lambda>d. \<exists>ps ss. splt = ps @ split (dataset d) @ ss) dataloaders
   \<and> (d \<in> set (evaluate_loaders dataloaders splt)
        \<longleftrightarrow> d \<in> set dataloaders \<and> (\<exists>ps ss. splt = ps @ split (dataset d) @ ss))
   \<and> evaluate E model dataloaders splt self
       = (score E (trace self) model (evaluate_loaders dataloaders splt),
          emit (Score (evaluate_loaders dataloaders splt)) self)
   \<and> filter is_score_event (trace (snd (logging E model dataloaders batch_size self)))
       = filter is_score_event (trace self)
         @ (if trigger_evaluation E (trace self @ [Model_eval, LogManager_update batch_size])
            then [Score (evaluate_loaders dataloaders (valid_split (config self)))] else [])
   \<and> (trigger_evaluation E (trace self @ [Model_eval, LogManager_update batch_size])
        \<longrightarrow> Score (evaluate_loaders dataloaders (valid_split (config self)))
              \<in> set (trace (snd (logging E model dataloaders batch_size self))))"
proof -
  have 1: "evaluate_loaders dataloaders splt
             = filter (\<lambda>d. \<exists>ps ss. splt = ps @ split (dataset d) @ ss) dataloaders"
    by (simp add: evaluate_loaders_def str_in_iff)
  have 2: "d \<in> set (evaluate_loaders dataloaders splt)
             \<longleftrightarrow> d \<in> set dataloaders \<and> (\<exists>ps ss. splt = ps @ split (dataset d) @ ss)"
    by (rule evaluate_loaders_iff)
  have 3: "evaluate E model dataloaders splt self
             = (score E (trace self) model (evaluate_loaders dataloaders splt),
                emit (Score (evaluate_loaders dataloaders splt)) self)"
    by (simp add: evaluate_def Let_def)
  have 5: "Score (evaluate_loaders dataloaders (valid_split (config self)))
             \<in> set (trace (snd (logging E model dataloaders batch_size self)))"
    if "trigger_evaluation E (trace self @ [Model_eval, LogManager_update batch_size])"
    by (rule logging_scores_valid_split [OF that])
  show ?thesis
    using 1 2 3 logging_scores [of E model dataloaders batch_size self] 5 by blast
qed

text \<open>
  A configuration with \<open>valid_split = "valid"\<close> and \<open>test_split = "val"\<close>, and a
  training, a test and a validation loader, which \<open>_check_dataloaders\<close> accepts. The
  split \<open>"val"\<close> of the test loader differs from \<open>valid_split\<close> and occurs in it:
  the test loader is scored along with the validation loader, and the training loader is
  not. A log manager that triggers an evaluation has exactly these two scored.
\<close>

theorem evaluate_selects_by_containment_witness:
  "check_dataloaders (ex_trainer (ex_config\<lparr>test_split := ''val''\<rparr>))
       [ex_loader ''train'' 1, ex_loader ''val'' 1, ex_loader ''valid'' 1] = None
   \<and> split (dataset (ex_loader ''val'' 1)) \<noteq> valid_split (ex_config\<lparr>test_split := ''val''\<rparr>)
   \<and> evaluate_loaders [ex_loader ''train'' 1, ex_loader ''val'' 1, ex_loader ''valid'' 1]
        (valid_split (ex_config\<lparr>test_split := ''val''\<rparr>))
       = [ex_loader ''val'' 1, ex_loader ''valid'' 1]
   \<and> ex_loader ''train'' 1
       \<notin> set (evaluate_loaders [ex_loader ''train'' 1, ex_loader ''val'' 1, ex_loader ''valid'' 1]
                (valid_split (ex_config\<lparr>test_split := ''val''\<rparr>)))
   \<and> filter is_score_event (trace (snd (logging
         ((ex_env ([], []))\<lparr>trigger_evaluation := (\<lambda>tr. True)\<rparr>) (0::nat)
         [ex_loader ''train'' 1, ex_loader ''val'' 1, ex_loader ''valid'' 1] 2
         (ex_trainer (ex_config\<lparr>test_split := ''val''\<rparr>)))))
       = [Score [ex_loader ''val'' 1, ex_loader ''valid'' 1]]"
proof -
  let ?c = "ex_config\<lparr>test_split := ''val''\<rparr>"
  let ?L = "[ex_loader ''train'' 1, ex_loader ''val'' 1, ex_loader ''valid'' 1]"
  let ?E = "(ex_env ([], []))\<lparr>trigger_evaluation := (\<lambda>tr. True)\<rparr>"
  have 1: "check_dataloaders (ex_trainer ?c) ?L = None"
    by (simp add: check_dataloaders_def ex_trainer_def ex_config_def ex_loader_def)
  have 2: "split (dataset (ex_loader ''val'' 1)) \<noteq> valid_split ?c"
    by (simp add: ex_config_def ex_loader_def)
  have 3: "filter (\<lambda>d. str_in (split (dataset d)) (valid_split ?c)) ?L
             = [ex_loader ''val'' 1, ex_loader ''valid'' 1]"
    by (simp add: ex_config_def ex_loader_def)
  have 4: "trigger_evaluation ?E (trace (ex_trainer ?c) @ [Model_eval, LogManager_update 2])"
    by simp
  have 5: "filter is_score_event (trace (ex_trainer ?c)) = []"
    by (simp add: ex_trainer_def)
  have 6: "valid_split (config (ex_trainer ?c)) = valid_split ?c"
    by (simp add: ex_trainer_def)
  have 7: "ex_loader ''train'' 1 \<notin> set [ex_loader ''val'' 1, ex_loader ''valid'' 1]"
    by (simp add: ex_loader_def)
  have L: "evaluate_loaders ?L (valid_split ?c) = [ex_loader ''val'' 1, ex_loader ''valid'' 1]"
    using 3 by (simp add: evaluate_loaders_def)
  show ?thesis
    using evaluate_selects_by_containment
            [where dataloaders = ?L and splt = "valid_split ?c" and d = "ex_loader ''train'' 1"
               and self = "ex_trainer ?c" and E = ?E and batch_size = 2 and model = "0::nat"]
          1 2 4 5 6 7 L
    by simp
qed

section \<open>A warmup of zero steps\<close>




section \<open>The training loop\<close>

lemmas ex_eval =
  train_model_def check_dataloaders_def set_training_helpers_def seq_def
  set_log_writer_def set_checkpointer_def set_log_manager_def set_optimizer_def
  set_lr_scheduler_def set_warmup_scheduler_def set_batch_scheduler_def
  ex_env_def ex_trainer_def ex_config_def ex_loader_def Let_def emit_def reset_losses_def
  train_batch_def update_lr_scheduler_def dd_get_def logging_def aggregate_losses_def
  checkpoint_model_def log_metrics_def evaluate_def enumerate_eq_zip upt_rec numeral_nat

lemma update_lr_scheduler_frame:
  "trace (snd (update_lr_scheduler E step self)) = trace self"
  "running_losses (snd (update_lr_scheduler E step self)) = running_losses self"
  "running_counts (snd (update_lr_scheduler E step self)) = running_counts self"
  "metrics (snd (update_lr_scheduler E step self)) = metrics self"
  by (simp_all add: update_lr_scheduler_def Let_def split: sum.splits prod.splits)

text \<open>
  Claim C1, as the code has it. Take a batch with a non-empty \<open>Y_dict\<close> whose
  scheduler update does not raise and for which \<open>model.calculate_loss\<close> returns an empty
  \<open>loss_dict\<close>. The body of the loop then ends at the \<open>continue\<close> of line 115: beyond
  the scheduler update, all it has done is \<open>zero_grad\<close> and the call of
  \<open>calculate_loss\<close>. There is no backward pass, no gradient clipping and no optimizer
  step; \<open>running_losses\<close>, \<open>running_counts\<close> and \<open>metrics\<close> are as before; and
  \<open>_logging\<close> is not called for that batch either, since it stands after the
  \<open>continue\<close>.
\<close>

theorem empty_loss_dict_skips_batch:
  assumes "Y_dict \<noteq> []"
    and "fst (update_lr_scheduler E (int epoch_num * int (n_batches_per_epoch self) + int batch_num)
           self) = None"
    and "fst (calculate_loss E (trace self @ [Zero_grad]) model X_dict Y_dict) = []"
  shows "train_batch E model dataloaders epoch_num batch_num (X_dict, Y_dict) dataloader self
         = (None, (snd (update_lr_scheduler E
                     (int epoch_num * int (n_batches_per_epoch self) + int batch_num) self))
                   \<lparr>trace := trace self @ [Zero_grad, Calculate_loss]\<rparr>)
       \<and> trace (snd (train_batch E model dataloaders epoch_num batch_num (X_dict, Y_dict)
                       dataloader self)) = trace self @ [Zero_grad, Calculate_loss]
       \<and> \<not> list_ex (\<lambda>ev. is_update_event ev \<or> is_logging_event ev)
             (drop (length (trace self))
                (trace (snd (train_batch E model dataloaders epoch_num batch_num (X_dict, Y_dict)
                               dataloader self))))
       \<and> running_losses (snd (train_batch E model dataloaders epoch_num batch_num (X_dict, Y_dict)
                                 dataloader self)) = running_losses self
       \<and> running_counts (snd (train_batch E model dataloaders epoch_num batch_num (X_dict, Y_dict)
                                 dataloader self)) = running_counts self
       \<and> metrics (snd (train_batch E model dataloaders epoch_num batch_num (X_dict, Y_dict)
                           dataloader self)) = metrics self"
proof -
  let ?step = "int epoch_num * int (n_batches_per_epoch self) + int batch_num"
  let ?self1 = "snd (update_lr_scheduler E ?step self)"
  obtain task labels rest where Y: "Y_dict = (task, labels) # rest"
    using assms(1) by (cases Y_dict) auto
  obtain count_dict where cl: "calculate_loss E (trace self @ [Zero_grad]) model X_dict Y_dict
                                 = ([], count_dict)"
    using assms(3) by (cases "calculate_loss E (trace self @ [Zero_grad]) model X_dict Y_dict") auto
  obtain self1 where u: "update_lr_scheduler E ?step self = (None, self1)"
    using assms(2) by (cases "update_lr_scheduler E ?step self") auto
  have tr1: "trace self1 = trace self"
    using update_lr_scheduler_frame(1) [of E ?step self] u by simp
  have tb: "train_batch E model dataloaders epoch_num batch_num (X_dict, Y_dict) dataloader self
            = (None, ?self1\<lparr>trace := trace self @ [Zero_grad, Calculate_loss]\<rparr>)"
    using cl by (simp add: train_batch_def Y Let_def seq_def u emit_def tr1)
  show ?thesis
    unfolding tb by (simp add: update_lr_scheduler_frame)
qed

text \<open>
  A batch of two samples for which the model returns no loss, in the first epoch of a
  trainer with no schedulers.
\<close>

theorem empty_loss_dict_skips_batch_witness:
  "train_batch (ex_env ([], [])) (0::nat) [ex_loader ''train'' 1] 0 0 ((), [(''t'', [1, 0])])
       (ex_loader ''train'' 1) (ex_trainer ex_config)
     = (None, (ex_trainer ex_config)\<lparr>trace := [Zero_grad, Calculate_loss]\<rparr>)"
proof -
  have 1: "[(''t'', [1, 0 :: int])] \<noteq> []" by simp
  have 2: "fst (update_lr_scheduler (ex_env ([], []))
             (int 0 * int (n_batches_per_epoch (ex_trainer ex_config)) + int 0)
             (ex_trainer ex_config)) = None"
    by (simp add: update_lr_scheduler_def ex_trainer_def)
  have 3: "fst (calculate_loss (ex_env ([], [])) (trace (ex_trainer ex_config) @ [Zero_grad])
             (0::nat) () [(''t'', [1, 0])]) = []"
    by (simp add: ex_env_def)
  have 4: "snd (update_lr_scheduler (ex_env ([], []))
             (int 0 * int (n_batches_per_epoch (ex_trainer ex_config)) + int 0)
             (ex_trainer ex_config)) = ex_trainer ex_config"
    by (simp add: update_lr_scheduler_def ex_trainer_def)
  show ?thesis
    using empty_loss_dict_skips_batch [OF 1 2 3, of "[ex_loader ''train'' 1]" "ex_loader ''train'' 1"] 4
    by (simp add: ex_trainer_def)
qed

text \<open>
  The claim as written has \<open>_logging\<close> still run for such a batch. On the batch above
  the model returns an empty \<open>loss_dict\<close>, and the trace of the batch holds no call of
  the log manager, nor any other event of \<open>_logging\<close>. The same batch with a loss for
  task \<open>t\<close> does reach \<open>_logging\<close>.
\<close>

theorem empty_loss_dict_no_logging:
  "fst (calculate_loss (ex_env ([], [])) [Zero_grad] (0::nat) () [(''t'', [1, 0])]) = []
   \<and> \<not> list_ex is_logging_event
         (trace (snd (train_batch (ex_env ([], [])) (0::nat) [ex_loader ''train'' 1] 0 0
                        ((), [(''t'', [1, 0])]) (ex_loader ''train'' 1) (ex_trainer ex_config))))
   \<and> LogManager_update 2 \<notin> set
         (trace (snd (train_batch (ex_env ([], [])) (0::nat) [ex_loader ''train'' 1] 0 0
                        ((), [(''t'', [1, 0])]) (ex_loader ''train'' 1) (ex_trainer ex_config))))
   \<and> LogManager_update 2 \<in> set
         (trace (snd (train_batch (ex_env ([(''t'', 2)], [(''t'', 3)])) (0::nat)
                        [ex_loader ''train'' 1] 0 0
                        ((), [(''t'', [1, 0])]) (ex_loader ''train'' 1) (ex_trainer ex_config))))"
  by (simp add: ex_eval)

text \<open>
  Claim C3, as the code has it. \<open>train_model\<close> is declared \<open>-> None\<close> and has no
  \<open>return\<close> statement: a call that ends normally evaluates to \<open>None\<close>. Its last
  action is the call of the log manager's \<open>close\<close>, whose result is bound to the local
  name \<open>model\<close> and dropped.
\<close>

theorem train_model_returns_None:
  assumes "fst (train_model E model dataloaders self) = Inr r"
  shows "r = None
         \<and> (\<exists>tr. trace (snd (train_model E model dataloaders self)) = tr @ [LogManager_close])"
  using assms
  by (auto simp: train_model_def Let_def split: option.splits prod.splits)

theorem train_model_returns_None_witness:
  "fst (train_model (ex_env ([(''t'', 2)], [(''t'', 3)])) (0::nat)
         [ex_loader ''train'' 2, ex_loader ''valid'' 1] (ex_trainer ex_config)) = Inr None
   \<and> (\<exists>tr. trace (snd (train_model (ex_env ([(''t'', 2)], [(''t'', 3)])) (0::nat)
         [ex_loader ''train'' 2, ex_loader ''valid'' 1] (ex_trainer ex_config)))
        = tr @ [LogManager_close])"
proof -
  have h: "fst (train_model (ex_env ([(''t'', 2)], [(''t'', 3)])) (0::nat)
         [ex_loader ''train'' 2, ex_loader ''valid'' 1] (ex_trainer ex_config)) = Inr None"
    by (simp add: ex_eval)
  show ?thesis using h train_model_returns_None [OF h] by simp
qed

text \<open>
  The claim as written makes the result the model that \<open>close\<close> returns. In a run of
  one epoch over two training batches the call ends normally; \<open>close\<close>, called on model
  0 after all the other events, returns model 1; the call evaluates to \<open>None\<close>.
\<close>

theorem train_model_result_not_closed_model:
  "fst (train_model (ex_env ([(''t'', 2)], [(''t'', 3)])) (0::nat)
         [ex_loader ''train'' 2, ex_loader ''valid'' 1] (ex_trainer ex_config)) = Inr None
   \<and> close (ex_env ([(''t'', 2)], [(''t'', 3)]))
        (butlast (trace (snd (train_model (ex_env ([(''t'', 2)], [(''t'', 3)])) (0::nat)
           [ex_loader ''train'' 2, ex_loader ''valid'' 1] (ex_trainer ex_config))))) 0 = Suc 0
   \<and> fst (train_model (ex_env ([(''t'', 2)], [(''t'', 3)])) (0::nat)
         [ex_loader ''train'' 2, ex_loader ''valid'' 1] (ex_trainer ex_config))
       \<noteq> Inr (Some (Suc 0))"
  by (simp add: ex_eval)

section \<open>Aggregated losses\<close>

text \<open>
  Claim C2, on the code. One batch of the training loader \<open>d\<close>, on which task \<open>t\<close>
  has loss 2 over 3 samples, is accumulated as lines 98 to 111 do: the weighted loss 6
  under the identifier \<open>t/d/train/loss\<close>, the count 3 under the task name \<open>t\<close>.
  \<open>_aggregate_losses\<close> then reads the count under the identifier, finds the default 0,
  and emits no metric for \<open>t/d/train/loss\<close>: the running average 6 / 3 = 2 of the task
  appears only as the overall \<open>model/all/train/loss\<close>.
\<close>

theorem aggregate_losses_drops_task_loss:
  "update_running (ex_loader ''train'' 1) [(''t'', 2)] [(''t'', 3)] [''t''] (ex_trainer ex_config)
     = (None, (ex_trainer ex_config)
          \<lparr>running_losses := [(''t/d/train/loss'', 6)], running_counts := [(''t'', 3)]\<rparr>)
   \<and> fst (aggregate_losses ((ex_trainer ex_config)
          \<lparr>running_losses := [(''t/d/train/loss'', 6)], running_counts := [(''t'', 3)]\<rparr>))
     = [(''model/all/train/loss'', 2), (''model/all/train/lr'', 0)]
   \<and> map_of (fst (aggregate_losses ((ex_trainer ex_config)
          \<lparr>running_losses := [(''t/d/train/loss'', 6)], running_counts := [(''t'', 3)]\<rparr>)))
        ''t/d/train/loss'' = None"
  by (simp add: ex_eval)

end
